theory Spec2Isabelle
  imports Main
begin

section \<open>Server notices manager (synapse/server_notices/server_notices_manager.py)\<close>

text \<open>
  The class \<open>ServerNoticesManager\<close> finds or creates, for a user, the room in which the
  server's notices account talks to that user, and sends notice events into it.
  Every collaborator the class holds (datastore, room creation handler, event creation
  handler) is external: the model takes the collaborators' answers as functions of their
  arguments, and records each call made to a collaborator, in order, in a call log.
  A Deferred that fires with a value or with a failure is a value of \<open>error + 'a\<close>
  together with the calls issued until then. The \<open>logger.info\<close> lines have no effect on
  results, collaborators or the cache and are left out.
\<close>

subsection \<open>Data\<close>

type_synonym user_id = string
type_synonym room_id = string

text \<open>
  Exceptions. \<open>Exception msg\<close> is Python's \<open>raise Exception(msg)\<close>; \<open>KeyError k\<close> is what
  subscripting a dict without key \<open>k\<close> raises; \<open>CollaboratorError\<close> stands for any other
  exception object a collaborator raises. A collaborator may answer with any of them.
\<close>

datatype error =
    Exception string
  | KeyError string
  | CollaboratorError string

text \<open>The exception raised at line 74, which the specification calls NotEnabledError.\<close>

definition NotEnabledError :: error where
  "NotEnabledError = Exception ''Server notices not enabled''"

text \<open>
  Modelled from the spec: the constants of \<open>synapse.api.constants\<close> (Membership,
  RoomCreationPreset, EventTypes) are imported at line 19 and are not part of the
  source file; the specification names the membership states "invite, join, ...",
  the preset "private chat" and the event type "message".
\<close>

datatype Membership = INVITE | JOIN | KNOCK | LEAVE | BAN

datatype RoomCreationPreset = PRIVATE_CHAT | PUBLIC_CHAT | TRUSTED_PRIVATE_CHAT

datatype EventTypes = Member | Create | Message

text \<open>A JSON value, for the caller-supplied event content.\<close>

datatype json =
    JNull
  | JBool bool
  | JInt int
  | JString string
  | JArray "json list"
  | JObject "(string \<times> json) list"

text \<open>
  Modelled from the spec: \<open>create_requester\<close> of \<open>synapse.types\<close> (imported at line 20)
  is not part of the source file; the specification describes a requester as "an identity
  context used to authorize an action", here the notices account. It is given whatever
  \<open>self._config.server_notices_mxid\<close> holds, which is \<open>None\<close> when nothing is configured.
\<close>

datatype Requester = Requester (requester_user: "user_id option")

definition create_requester :: "user_id option \<Rightarrow> Requester" where
  "create_requester user = Requester user"

text \<open>The rows the datastore returns for a user: the loop reads only \<open>room.room_id\<close>.\<close>

record RoomsForUser =
  room_id :: room_id
  membership :: Membership

text \<open>The \<open>config\<close> dict given to \<open>create_room\<close> (lines 94 to 101).\<close>

record room_config =
  preset :: RoomCreationPreset
  name :: string
  power_level_content_override :: "(string \<times> int) list"
  invite :: "user_id list"

text \<open>The \<open>creator_join_profile\<close> dict (lines 103 to 105).\<close>

record join_profile =
  displayname :: string

text \<open>The event dict given to \<open>create_and_send_nonmember_event\<close> (lines 52 to 57).\<close>

record event_dict =
  event_type :: EventTypes
  event_room_id :: room_id
  event_sender :: "user_id option"
  event_content :: json

text \<open>The fields of \<open>hs.config\<close> the class reads.\<close>

record Config =
  server_notices_mxid :: "user_id option"
  server_notices_room_name :: string
  server_notices_mxid_display_name :: string

text \<open>The collaborators: what each answers when called with the given arguments.\<close>

record DataStore =
  get_rooms_for_user_where_membership_is ::
    "user_id \<Rightarrow> Membership list \<Rightarrow> error + RoomsForUser list"
  get_users_in_room :: "room_id \<Rightarrow> error + user_id list"

record RoomCreationHandler =
  create_room ::
    "Requester \<Rightarrow> room_config \<Rightarrow> bool \<Rightarrow> join_profile \<Rightarrow> error + (string \<times> string) list"

record EventCreationHandler =
  create_and_send_nonmember_event ::
    "Requester \<Rightarrow> event_dict \<Rightarrow> bool \<Rightarrow> error + unit"

text \<open>The object built by \<open>__init__\<close> (lines 34 to 37).\<close>

record ServerNoticesManager =
  store :: DataStore
  config :: Config
  room_creation_handler :: RoomCreationHandler
  event_creation_handler :: EventCreationHandler

text \<open>A call to a collaborator, with its arguments (the third of each is \<open>ratelimit\<close>).\<close>

datatype call =
    Call_get_rooms_for_user_where_membership_is user_id "Membership list"
  | Call_get_users_in_room room_id
  | Call_create_room Requester room_config bool join_profile
  | Call_create_and_send_nonmember_event Requester event_dict bool

type_synonym 'a deferred = "(error + 'a) \<times> call list"

type_synonym cache = "user_id \<rightharpoonup> room_id"

fun is_create_room_call :: "call \<Rightarrow> bool" where
  "is_create_room_call (Call_create_room req cfg rl prof) = True"
| "is_create_room_call c = False"

fun is_event_call :: "call \<Rightarrow> bool" where
  "is_event_call (Call_create_and_send_nonmember_event req ev rl) = True"
| "is_event_call c = False"

subsection \<open>The methods\<close>

text \<open>Line 40.\<close>

definition is_enabled :: "ServerNoticesManager \<Rightarrow> bool" where
  "is_enabled self = (server_notices_mxid (config self) \<noteq> None)"

text \<open>
  The loop of lines 80 to 86 over the remaining rooms: \<open>Inr (Some r)\<close> is the
  \<open>defer.returnValue(room.room_id)\<close> of line 86, \<open>Inr None\<close> is falling out of the loop,
  \<open>Inl e\<close> is \<open>get_users_in_room\<close> raising. The test \<open>system_mxid in user_ids\<close> compares the
  configured value with each member.
\<close>

fun find_shared_room ::
  "ServerNoticesManager \<Rightarrow> user_id option \<Rightarrow> RoomsForUser list \<Rightarrow> room_id option deferred"
where
  "find_shared_room self system_mxid [] = (Inr None, [])"
| "find_shared_room self system_mxid (room # rooms) =
     (case get_users_in_room (store self) (room_id room) of
        Inl e \<Rightarrow> (Inl e, [Call_get_users_in_room (room_id room)])
      | Inr user_ids \<Rightarrow>
          if system_mxid \<in> set (map Some user_ids)
          then (Inr (Some (room_id room)), [Call_get_users_in_room (room_id room)])
          else (case find_shared_room self system_mxid rooms of
                  (res, calls) \<Rightarrow> (res, Call_get_users_in_room (room_id room) # calls)))"

text \<open>The arguments of the \<open>create_room\<close> call of lines 92 to 106.\<close>

definition notice_room_config :: "ServerNoticesManager \<Rightarrow> user_id \<Rightarrow> room_config" where
  "notice_room_config self user =
     \<lparr> preset = PRIVATE_CHAT,
       name = server_notices_room_name (config self),
       power_level_content_override = [(''users_default'', - 10)],
       invite = [user] \<rparr>"

definition notice_join_profile :: "ServerNoticesManager \<Rightarrow> join_profile" where
  "notice_join_profile self =
     \<lparr> displayname = server_notices_mxid_display_name (config self) \<rparr>"

text \<open>Lines 91 to 110: create the room and read \<open>info['room_id']\<close>.\<close>

definition create_notice_room ::
  "ServerNoticesManager \<Rightarrow> user_id option \<Rightarrow> user_id \<Rightarrow> room_id deferred"
where
  "create_notice_room self system_mxid user =
     (let requester = create_requester system_mxid;
          c = Call_create_room requester (notice_room_config self user) False
                (notice_join_profile self)
      in case create_room (room_creation_handler self) requester
                (notice_room_config self user) False (notice_join_profile self) of
           Inl e \<Rightarrow> (Inl e, [c])
         | Inr info \<Rightarrow>
             (case map_of info ''room_id'' of
                None \<Rightarrow> (Inl (KeyError ''room_id''), [c])
              | Some r \<Rightarrow> (Inr r, [c])))"

text \<open>
  The body of \<open>get_notice_room_for_user\<close> as written at lines 73 to 110, under the
  decorator: what one resolution computes.
\<close>

definition get_notice_room_for_user_body ::
  "ServerNoticesManager \<Rightarrow> user_id \<Rightarrow> room_id deferred"
where
  "get_notice_room_for_user_body self user =
     (if \<not> is_enabled self then (Inl (Exception ''Server notices not enabled''), [])
      else
        let c0 = Call_get_rooms_for_user_where_membership_is user [INVITE, JOIN] in
        case get_rooms_for_user_where_membership_is (store self) user [INVITE, JOIN] of
          Inl e \<Rightarrow> (Inl e, [c0])
        | Inr rooms \<Rightarrow>
            let system_mxid = server_notices_mxid (config self) in
            (case find_shared_room self system_mxid rooms of
               (Inl e, calls) \<Rightarrow> (Inl e, c0 # calls)
             | (Inr (Some r), calls) \<Rightarrow> (Inr r, c0 # calls)
             | (Inr None, calls) \<Rightarrow>
                 (case create_notice_room self system_mxid user of
                    (res, calls') \<Rightarrow> (res, c0 # calls @ calls'))))"

text \<open>
  Modelled from the spec: the decorator \<open>cachedInlineCallbacks\<close> of
  \<open>synapse.util.caches.descriptors\<close> (imported at line 21, applied at line 61) is not
  part of the source file. The specification asks for a per-key memoization table: a call
  for an already-resolved key "returns the cached room id without re-querying storage or
  re-creating a room"; a first call runs the resolution and its result is cached; a
  failed resolution is "propagated unchanged" and "must not leave a corrupt/partial cache
  entry". Calls are sequential here: each completes before the next starts.
\<close>

definition cachedInlineCallbacks ::
  "('k \<Rightarrow> 'v deferred) \<Rightarrow> ('k \<rightharpoonup> 'v) \<Rightarrow> 'k \<Rightarrow> 'v deferred \<times> ('k \<rightharpoonup> 'v)"
where
  "cachedInlineCallbacks f cache k =
     (case cache k of
        Some v \<Rightarrow> ((Inr v, []), cache)
      | None \<Rightarrow>
          (case f k of
             (Inr v, calls) \<Rightarrow> ((Inr v, calls), cache(k \<mapsto> v))
           | (Inl e, calls) \<Rightarrow> ((Inl e, calls), cache)))"

text \<open>The method \<open>get_notice_room_for_user\<close> as callers see it (lines 61 and 62).\<close>

definition get_notice_room_for_user ::
  "ServerNoticesManager \<Rightarrow> cache \<Rightarrow> user_id \<Rightarrow> room_id deferred \<times> cache"
where
  "get_notice_room_for_user self cache user =
     cachedInlineCallbacks (get_notice_room_for_user_body self) cache user"

text \<open>Lines 43 to 59.\<close>

definition notice_event :: "ServerNoticesManager \<Rightarrow> room_id \<Rightarrow> json \<Rightarrow> event_dict" where
  "notice_event self room content =
     \<lparr> event_type = Message,
       event_room_id = room,
       event_sender = server_notices_mxid (config self),
       event_content = content \<rparr>"

definition send_notice ::
  "ServerNoticesManager \<Rightarrow> cache \<Rightarrow> user_id \<Rightarrow> json \<Rightarrow> unit deferred \<times> cache"
where
  "send_notice self cache user content =
     (case get_notice_room_for_user self cache user of
        ((Inl e, calls), cache') \<Rightarrow> ((Inl e, calls), cache')
      | ((Inr room, calls), cache') \<Rightarrow>
          let system_mxid = server_notices_mxid (config self);
              requester = create_requester system_mxid;
              ev = notice_event self room content
          in ((create_and_send_nonmember_event (event_creation_handler self)
                 requester ev False,
               calls @ [Call_create_and_send_nonmember_event requester ev False]),
              cache'))"

text \<open>
  The caches a manager with configuration \<open>cfg\<close> can hold: empty when the object is
  built, then changed only by calls of its two methods (the configuration is read-only,
  the collaborators may answer differently at each call).
\<close>

inductive reachable :: "Config \<Rightarrow> cache \<Rightarrow> bool" where
  reachable_init: "reachable cfg Map.empty"
| reachable_resolve:
    "reachable cfg cache \<Longrightarrow> config self = cfg \<Longrightarrow>
     reachable cfg (snd (get_notice_room_for_user self cache user))"
| reachable_send:
    "reachable cfg cache \<Longrightarrow> config self = cfg \<Longrightarrow>
     reachable cfg (snd (send_notice self cache user content))"

subsection \<open>A homeserver to evaluate the methods on\<close>

text \<open>
  User u1 has no rooms, u2 shares room r2 with the notices account (second of three
  rooms), the membership query for u3 fails, u4 has one room without the notices account.
\<close>

definition example_config :: Config where
  "example_config =
     \<lparr> server_notices_mxid = Some ''@notices:hs'',
       server_notices_room_name = ''Server Notices'',
       server_notices_mxid_display_name = ''Notices'' \<rparr>"

definition disabled_config :: Config where
  "disabled_config =
     \<lparr> server_notices_mxid = None,
       server_notices_room_name = ''Server Notices'',
       server_notices_mxid_display_name = ''Notices'' \<rparr>"

definition example_store :: DataStore where
  "example_store =
     \<lparr> get_rooms_for_user_where_membership_is =
         (\<lambda>user ms.
            if user = ''u2''
            then Inr [\<lparr> room_id = ''r0'', membership = INVITE \<rparr>,
                      \<lparr> room_id = ''r2'', membership = JOIN \<rparr>,
                      \<lparr> room_id = ''r3'', membership = JOIN \<rparr>]
            else if user = ''u3'' then Inl (CollaboratorError ''db'')
            else if user = ''u4'' then Inr [\<lparr> room_id = ''r4'', membership = JOIN \<rparr>]
            else Inr []),
       get_users_in_room =
         (\<lambda>room. if room = ''r2'' then Inr [''u2'', ''@notices:hs''] else Inr [''u2'']) \<rparr>"

definition example_room_creation_handler :: RoomCreationHandler where
  "example_room_creation_handler =
     \<lparr> create_room = (\<lambda>requester cfg ratelimit profile. Inr [(''room_id'', ''r1'')]) \<rparr>"

definition example_event_creation_handler :: EventCreationHandler where
  "example_event_creation_handler =
     \<lparr> create_and_send_nonmember_event = (\<lambda>requester ev ratelimit. Inr ()) \<rparr>"

definition example_manager :: ServerNoticesManager where
  "example_manager =
     \<lparr> store = example_store,
       config = example_config,
       room_creation_handler = example_room_creation_handler,
       event_creation_handler = example_event_creation_handler \<rparr>"

definition disabled_manager :: ServerNoticesManager where
  "disabled_manager = example_manager \<lparr> config := disabled_config \<rparr>"

section \<open>Properties\<close>

lemmas example_defs =
  example_manager_def example_store_def example_config_def
  example_room_creation_handler_def example_event_creation_handler_def
  disabled_manager_def disabled_config_def

lemmas method_defs =
  get_notice_room_for_user_def cachedInlineCallbacks_def get_notice_room_for_user_body_def
  create_notice_room_def notice_room_config_def notice_join_profile_def
  create_requester_def is_enabled_def send_notice_def notice_event_def

subsection \<open>The search loop, room creation and the cache\<close>

lemma find_shared_room_none_iff:
  "find_shared_room self m rooms = (Inr None, calls) \<longleftrightarrow>
     (\<forall>room \<in> set rooms. \<exists>us. get_users_in_room (store self) (room_id room) = Inr us
        \<and> m \<notin> set (map Some us))
     \<and> calls = map (\<lambda>room. Call_get_users_in_room (room_id room)) rooms"
proof (induction rooms arbitrary: calls)
  case Nil
  show ?case by auto
next
  case (Cons room rooms)
  show ?case
  proof (cases "get_users_in_room (store self) (room_id room)")
    case (Inl e)
    then show ?thesis by simp
  next
    case (Inr us)
    show ?thesis
    proof (cases "m \<in> set (map Some us)")
      case True
      with Inr show ?thesis by simp
    next
      case False
      obtain res cs where rec: "find_shared_room self m rooms = (res, cs)"
        by (cases "find_shared_room self m rooms")
      show ?thesis
        using Inr False rec Cons.IH [of cs] Cons.IH [of "tl calls"]
        by (cases calls) auto
    qed
  qed
qed

lemma find_shared_room_found:
  assumes "\<forall>room \<in> set pre. \<exists>us. get_users_in_room (store self) (room_id room) = Inr us
             \<and> m \<notin> set (map Some us)"
    and "get_users_in_room (store self) (room_id room) = Inr us"
    and "m \<in> set (map Some us)"
  shows "find_shared_room self m (pre @ room # post) =
           (Inr (Some (room_id room)),
            map (\<lambda>room. Call_get_users_in_room (room_id room)) (pre @ [room]))"
  using assms by (induction pre) auto

lemma find_shared_room_calls:
  "set (snd (find_shared_room self m rooms)) \<subseteq> range Call_get_users_in_room"
  by (induction rooms) (auto split: sum.splits prod.splits)

lemma body_disabled:
  "\<not> is_enabled self \<Longrightarrow>
   get_notice_room_for_user_body self user = (Inl NotEnabledError, [])"
  by (simp add: get_notice_room_for_user_body_def NotEnabledError_def)

lemma get_notice_room_for_user_hit:
  "cache user = Some r \<Longrightarrow>
   get_notice_room_for_user self cache user = ((Inr r, []), cache)"
  by (simp add: get_notice_room_for_user_def cachedInlineCallbacks_def)

lemma get_notice_room_for_user_miss:
  "cache user = None \<Longrightarrow>
   fst (get_notice_room_for_user self cache user) = get_notice_room_for_user_body self user"
  by (simp add: get_notice_room_for_user_def cachedInlineCallbacks_def
      split: prod.splits sum.splits)

lemma get_notice_room_for_user_success:
  "get_notice_room_for_user self cache user = ((Inr r, calls), cache') \<Longrightarrow>
   cache' user = Some r"
  by (auto simp: get_notice_room_for_user_def cachedInlineCallbacks_def
      split: option.splits prod.splits sum.splits)

lemma get_notice_room_for_user_failure:
  "get_notice_room_for_user self cache user = ((Inl e, calls), cache') \<Longrightarrow>
   cache user = None \<and> cache' = cache
   \<and> get_notice_room_for_user_body self user = (Inl e, calls)"
  by (auto simp: get_notice_room_for_user_def cachedInlineCallbacks_def
      split: option.splits prod.splits sum.splits)

lemma get_notice_room_for_user_frame:
  "v \<noteq> user \<Longrightarrow> snd (get_notice_room_for_user self cache user) v = cache v"
  by (auto simp: get_notice_room_for_user_def cachedInlineCallbacks_def
      split: option.splits prod.splits sum.splits)

lemma send_notice_cache:
  "snd (send_notice self cache user content) =
   snd (get_notice_room_for_user self cache user)"
  by (auto simp: send_notice_def Let_def split: prod.splits sum.splits)

lemma reachable_disabled:
  "reachable cfg cache \<Longrightarrow> server_notices_mxid cfg = None \<Longrightarrow> cache = Map.empty"
proof (induction rule: reachable.induct)
  case (reachable_init cfg)
  show ?case by simp
next
  case (reachable_resolve cfg cache self user)
  then have "\<not> is_enabled self" and "cache = Map.empty"
    by (simp_all add: is_enabled_def)
  then show ?case
    by (simp add: get_notice_room_for_user_def cachedInlineCallbacks_def body_disabled)
next
  case (reachable_send cfg cache self user content)
  then have "\<not> is_enabled self" and "cache = Map.empty"
    by (simp_all add: is_enabled_def)
  then show ?case
    by (simp add: send_notice_cache get_notice_room_for_user_def
        cachedInlineCallbacks_def body_disabled)
qed

lemma body_calls_enabled:
  assumes "is_enabled self"
    and "get_rooms_for_user_where_membership_is (store self) user [INVITE, JOIN] = Inr rooms"
    and "find_shared_room self (server_notices_mxid (config self)) rooms = (res, calls)"
  shows "get_notice_room_for_user_body self user =
           (case res of
              Inl e \<Rightarrow> (Inl e, Call_get_rooms_for_user_where_membership_is user [INVITE, JOIN] # calls)
            | Inr (Some r) \<Rightarrow>
                (Inr r, Call_get_rooms_for_user_where_membership_is user [INVITE, JOIN] # calls)
            | Inr None \<Rightarrow>
                (fst (create_notice_room self (server_notices_mxid (config self)) user),
                 Call_get_rooms_for_user_where_membership_is user [INVITE, JOIN] # calls @
                 snd (create_notice_room self (server_notices_mxid (config self)) user)))"
  using assms
  by (simp add: get_notice_room_for_user_body_def Let_def
      split: sum.splits option.splits prod.splits)

lemma create_notice_room_calls:
  "snd (create_notice_room self m user) =
     [Call_create_room (create_requester m) (notice_room_config self user) False
        (notice_join_profile self)]"
  by (simp add: create_notice_room_def Let_def split: sum.splits option.splits)

lemma create_notice_room_result:
  "fst (create_notice_room self m user) =
     (case create_room (room_creation_handler self) (create_requester m)
             (notice_room_config self user) False (notice_join_profile self) of
        Inl e \<Rightarrow> Inl e
      | Inr info \<Rightarrow>
          (case map_of info ''room_id'' of
             None \<Rightarrow> Inl (KeyError ''room_id'')
           | Some r \<Rightarrow> Inr r))"
  by (simp add: create_notice_room_def Let_def split: sum.splits option.splits)

lemma filter_users_in_room_calls:
  "filter is_create_room_call (map (\<lambda>room. Call_get_users_in_room (room_id room)) rooms) = []"
  by (induction rooms) simp_all

lemma body_create_room_call:
  assumes "Call_create_room req rc rl prof \<in> set (snd (get_notice_room_for_user_body self user))"
  shows "\<exists>rooms.
           get_rooms_for_user_where_membership_is (store self) user [INVITE, JOIN] = Inr rooms
         \<and> find_shared_room self (server_notices_mxid (config self)) rooms =
             (Inr None, map (\<lambda>room. Call_get_users_in_room (room_id room)) rooms)
         \<and> snd (get_notice_room_for_user_body self user) =
             Call_get_rooms_for_user_where_membership_is user [INVITE, JOIN] #
             map (\<lambda>room. Call_get_users_in_room (room_id room)) rooms @
             [Call_create_room req rc rl prof]
         \<and> Call_create_room req rc rl prof =
             Call_create_room (create_requester (server_notices_mxid (config self)))
               (notice_room_config self user) False (notice_join_profile self)"
proof -
  from assms have en: "is_enabled self"
    by (auto simp: get_notice_room_for_user_body_def split: if_splits)
  from assms en obtain rooms where
    rooms: "get_rooms_for_user_where_membership_is (store self) user [INVITE, JOIN] = Inr rooms"
    by (cases "get_rooms_for_user_where_membership_is (store self) user [INVITE, JOIN]")
      (auto simp: get_notice_room_for_user_body_def)
  obtain res calls where
    search: "find_shared_room self (server_notices_mxid (config self)) rooms = (res, calls)"
    by (cases "find_shared_room self (server_notices_mxid (config self)) rooms")
  have sub: "set calls \<subseteq> range Call_get_users_in_room"
    using find_shared_room_calls [of self "server_notices_mxid (config self)" rooms] search
    by simp
  then have notin: "Call_create_room req rc rl prof \<notin> set calls"
    by auto
  have res: "res = Inr None"
  proof (cases res)
    case (Inl e)
    with assms notin body_calls_enabled [OF en rooms search] show ?thesis by simp
  next
    case (Inr found)
    with assms notin body_calls_enabled [OF en rooms search] show ?thesis
      by (cases found) simp_all
  qed
  with search have calls: "calls = map (\<lambda>room. Call_get_users_in_room (room_id room)) rooms"
    by (simp add: find_shared_room_none_iff)
  have body: "snd (get_notice_room_for_user_body self user) =
      Call_get_rooms_for_user_where_membership_is user [INVITE, JOIN] # calls @
      [Call_create_room (create_requester (server_notices_mxid (config self)))
         (notice_room_config self user) False (notice_join_profile self)]"
    using body_calls_enabled [OF en rooms search] res
    by (simp add: create_notice_room_calls)
  with assms notin have eq: "Call_create_room req rc rl prof =
      Call_create_room (create_requester (server_notices_mxid (config self)))
         (notice_room_config self user) False (notice_join_profile self)"
    by auto
  from rooms search res calls body eq show ?thesis
    by auto
qed

lemma body_no_event_call:
  "filter is_event_call (snd (get_notice_room_for_user_body self user)) = []"
proof (cases "is_enabled self")
  case False
  then show ?thesis by (simp add: body_disabled)
next
  case True
  show ?thesis
  proof (cases "get_rooms_for_user_where_membership_is (store self) user [INVITE, JOIN]")
    case (Inl e)
    with True show ?thesis
      by (simp add: get_notice_room_for_user_body_def)
  next
    case (Inr rooms)
    obtain res cs where
      search: "find_shared_room self (server_notices_mxid (config self)) rooms = (res, cs)"
      by (cases "find_shared_room self (server_notices_mxid (config self)) rooms")
    have "set cs \<subseteq> range Call_get_users_in_room"
      using find_shared_room_calls [of self "server_notices_mxid (config self)" rooms] search
      by simp
    then have cs: "filter is_event_call cs = []"
      by (auto simp: filter_empty_conv)
    show ?thesis
      using body_calls_enabled [OF True Inr search] cs
      by (simp add: create_notice_room_calls split: sum.splits option.splits)
  qed
qed

lemma get_notice_room_for_user_no_event_call:
  "filter is_event_call (snd (fst (get_notice_room_for_user self cache user))) = []"
  using body_no_event_call [of self user]
  by (auto simp: get_notice_room_for_user_def cachedInlineCallbacks_def
      split: option.splits sum.splits prod.splits)

lemma body_failure_origin:
  assumes "get_notice_room_for_user_body self user = (Inl e, calls)"
  shows "e = NotEnabledError
       \<or> get_rooms_for_user_where_membership_is (store self) user [INVITE, JOIN] = Inl e
       \<or> (\<exists>rooms room.
            get_rooms_for_user_where_membership_is (store self) user [INVITE, JOIN] = Inr rooms
          \<and> room \<in> set rooms
          \<and> get_users_in_room (store self) (room_id room) = Inl e)
       \<or> create_room (room_creation_handler self)
            (create_requester (server_notices_mxid (config self)))
            (notice_room_config self user) False (notice_join_profile self) = Inl e
       \<or> e = KeyError ''room_id''"
proof -
  have loop: "\<And>rooms cs. find_shared_room self (server_notices_mxid (config self)) rooms
        = (Inl e, cs) \<Longrightarrow>
      \<exists>room \<in> set rooms. get_users_in_room (store self) (room_id room) = Inl e"
  proof -
    fix rooms cs
    show "find_shared_room self (server_notices_mxid (config self)) rooms = (Inl e, cs) \<Longrightarrow>
      \<exists>room \<in> set rooms. get_users_in_room (store self) (room_id room) = Inl e"
      by (induction rooms arbitrary: cs)
        (auto split: sum.splits if_splits prod.splits)
  qed
  show ?thesis
  proof (cases "is_enabled self")
    case False
    with assms show ?thesis by (simp add: body_disabled)
  next
    case True
    show ?thesis
    proof (cases "get_rooms_for_user_where_membership_is (store self) user [INVITE, JOIN]")
      case (Inl e')
      with assms True show ?thesis
        by (simp add: get_notice_room_for_user_body_def)
    next
      case (Inr rooms)
      obtain res cs where
        search: "find_shared_room self (server_notices_mxid (config self)) rooms = (res, cs)"
        by (cases "find_shared_room self (server_notices_mxid (config self)) rooms")
      show ?thesis
      proof (cases res)
        case (Inl e')
        with assms body_calls_enabled [OF True Inr search] have "e' = e" by simp
        with Inl search loop [of rooms cs] Inr show ?thesis by blast
      next
        case found: (Inr found)
        show ?thesis
        proof (cases found)
          case None
          with found assms body_calls_enabled [OF True Inr search]
          have "fst (create_notice_room self (server_notices_mxid (config self)) user) = Inl e"
            by simp
          then show ?thesis
            by (auto simp: create_notice_room_result split: sum.splits option.splits)
        next
          case (Some r)
          with found assms body_calls_enabled [OF True Inr search] show ?thesis by simp
        qed
      qed
    qed
  qed
qed

subsection \<open>The claims of the specification\<close>

text \<open>
  Claim C1. Two sequential successful calls of \<open>get_notice_room_for_user\<close> for
  the same user return the same room id, and the second call issues no call to any
  collaborator (no storage query, no room creation): it answers from the cache, which it
  leaves as it is. The collaborators' answers at the second call (\<open>self'\<close>) are
  arbitrary.
\<close>

theorem resolve_twice_cached:
  assumes "get_notice_room_for_user self cache user = ((Inr r, calls), cache')"
  shows "get_notice_room_for_user self' cache' user = ((Inr r, []), cache')"
  using get_notice_room_for_user_success [OF assms]
  by (rule get_notice_room_for_user_hit)

theorem resolve_twice_cached_witness:
  "get_notice_room_for_user example_manager Map.empty ''u1'' =
     ((Inr ''r1'',
       [Call_get_rooms_for_user_where_membership_is ''u1'' [INVITE, JOIN],
        Call_create_room (Requester (Some ''@notices:hs''))
          \<lparr> preset = PRIVATE_CHAT, name = ''Server Notices'',
            power_level_content_override = [(''users_default'', - 10)],
            invite = [''u1''] \<rparr>
          False \<lparr> displayname = ''Notices'' \<rparr>]),
      [''u1'' \<mapsto> ''r1''])
   \<and> get_notice_room_for_user example_manager [''u1'' \<mapsto> ''r1''] ''u1'' =
     ((Inr ''r1'', []), [''u1'' \<mapsto> ''r1''])"
proof -
  have first: "get_notice_room_for_user example_manager Map.empty ''u1'' =
     ((Inr ''r1'',
       [Call_get_rooms_for_user_where_membership_is ''u1'' [INVITE, JOIN],
        Call_create_room (Requester (Some ''@notices:hs''))
          \<lparr> preset = PRIVATE_CHAT, name = ''Server Notices'',
            power_level_content_override = [(''users_default'', - 10)],
            invite = [''u1''] \<rparr>
          False \<lparr> displayname = ''Notices'' \<rparr>]),
      [''u1'' \<mapsto> ''r1''])"
    by (simp add: method_defs example_defs)
  from first resolve_twice_cached [OF first, of example_manager] show ?thesis
    by (rule conjI)
qed

text \<open>
  Claim C2. When the rooms the datastore returns for the user's invite and join
  memberships contain a room whose members include the configured notices account, a
  resolution returns the first such room in the order the datastore returned them (every
  room before it was queried and does not contain the account), after querying only the
  rooms up to that one, and the call log has no \<open>create_room\<close> call.
\<close>

theorem existing_room_first_match:
  assumes rooms: "get_rooms_for_user_where_membership_is (store self) user [INVITE, JOIN]
                    = Inr (pre @ room # post)"
    and pre: "\<forall>p \<in> set pre. \<exists>us. get_users_in_room (store self) (room_id p) = Inr us
                \<and> server_notices_mxid (config self) \<notin> set (map Some us)"
    and users: "get_users_in_room (store self) (room_id room) = Inr user_ids"
    and member: "server_notices_mxid (config self) \<in> set (map Some user_ids)"
  shows "get_notice_room_for_user_body self user =
           (Inr (room_id room),
            Call_get_rooms_for_user_where_membership_is user [INVITE, JOIN] #
            map (\<lambda>p. Call_get_users_in_room (room_id p)) (pre @ [room]))
         \<and> filter is_create_room_call (snd (get_notice_room_for_user_body self user)) = []"
proof -
  from member have en: "is_enabled self"
    by (auto simp: is_enabled_def)
  have found: "find_shared_room self (server_notices_mxid (config self)) (pre @ room # post) =
      (Inr (Some (room_id room)), map (\<lambda>p. Call_get_users_in_room (room_id p)) (pre @ [room]))"
    using pre users member by (rule find_shared_room_found)
  have body: "get_notice_room_for_user_body self user =
           (Inr (room_id room),
            Call_get_rooms_for_user_where_membership_is user [INVITE, JOIN] #
            map (\<lambda>p. Call_get_users_in_room (room_id p)) (pre @ [room]))"
    using body_calls_enabled [OF en rooms found] by simp
  show ?thesis
    unfolding body using filter_users_in_room_calls [of "pre @ [room]"] by simp
qed

theorem existing_room_first_match_witness:
  "get_notice_room_for_user_body example_manager ''u2'' =
     (Inr ''r2'',
      [Call_get_rooms_for_user_where_membership_is ''u2'' [INVITE, JOIN],
       Call_get_users_in_room ''r0'', Call_get_users_in_room ''r2''])
   \<and> filter is_create_room_call (snd (get_notice_room_for_user_body example_manager ''u2'')) = []"
proof -
  have rooms: "get_rooms_for_user_where_membership_is (store example_manager) ''u2''
      [INVITE, JOIN] =
      Inr ([\<lparr> room_id = ''r0'', membership = INVITE \<rparr>] @
           \<lparr> room_id = ''r2'', membership = JOIN \<rparr> #
           [\<lparr> room_id = ''r3'', membership = JOIN \<rparr>])"
    by (simp add: example_defs)
  have pre: "\<forall>p \<in> set [\<lparr> room_id = ''r0'', membership = INVITE \<rparr>].
      \<exists>us. get_users_in_room (store example_manager) (room_id p) = Inr us
         \<and> server_notices_mxid (config example_manager) \<notin> set (map Some us)"
    by (simp add: example_defs)
  have users: "get_users_in_room (store example_manager)
      (room_id \<lparr> room_id = ''r2'', membership = JOIN \<rparr>) = Inr [''u2'', ''@notices:hs'']"
    by (simp add: example_defs)
  have member: "server_notices_mxid (config example_manager)
      \<in> set (map Some [''u2'', ''@notices:hs''])"
    by (simp add: example_defs)
  show ?thesis
    using existing_room_first_match [OF rooms pre users member] by simp
qed

text \<open>
  Claim C3. When notices are enabled and no room the datastore returns for the user's
  invite and join memberships contains the notices account, a resolution calls
  \<open>create_room\<close> exactly once, with preset private chat, the configured room name, the
  power level override \<open>users_default = -10\<close>, the invite list holding exactly the target
  user, and the configured display name in the creator's join profile; what it returns is
  the \<open>room_id\<close> entry of the creation result (the failure of \<open>create_room\<close>, or a
  \<open>KeyError\<close>, when there is none).
\<close>

theorem no_shared_room_creates:
  assumes en: "is_enabled self"
    and rooms: "get_rooms_for_user_where_membership_is (store self) user [INVITE, JOIN]
                  = Inr rooms"
    and none: "\<forall>room \<in> set rooms. \<exists>us. get_users_in_room (store self) (room_id room) = Inr us
                \<and> server_notices_mxid (config self) \<notin> set (map Some us)"
  shows "filter is_create_room_call (snd (get_notice_room_for_user_body self user)) =
           [Call_create_room (create_requester (server_notices_mxid (config self)))
              \<lparr> preset = PRIVATE_CHAT,
                name = server_notices_room_name (config self),
                power_level_content_override = [(''users_default'', - 10)],
                invite = [user] \<rparr>
              False
              \<lparr> displayname = server_notices_mxid_display_name (config self) \<rparr>]
         \<and> fst (get_notice_room_for_user_body self user) =
           (case create_room (room_creation_handler self)
                   (create_requester (server_notices_mxid (config self)))
                   \<lparr> preset = PRIVATE_CHAT,
                     name = server_notices_room_name (config self),
                     power_level_content_override = [(''users_default'', - 10)],
                     invite = [user] \<rparr>
                   False
                   \<lparr> displayname = server_notices_mxid_display_name (config self) \<rparr> of
              Inl e \<Rightarrow> Inl e
            | Inr info \<Rightarrow>
                (case map_of info ''room_id'' of
                   None \<Rightarrow> Inl (KeyError ''room_id'')
                 | Some r \<Rightarrow> Inr r))"
proof -
  have search: "find_shared_room self (server_notices_mxid (config self)) rooms =
      (Inr None, map (\<lambda>room. Call_get_users_in_room (room_id room)) rooms)"
    using none by (simp add: find_shared_room_none_iff)
  have body: "get_notice_room_for_user_body self user =
      (fst (create_notice_room self (server_notices_mxid (config self)) user),
       Call_get_rooms_for_user_where_membership_is user [INVITE, JOIN] #
       map (\<lambda>room. Call_get_users_in_room (room_id room)) rooms @
       snd (create_notice_room self (server_notices_mxid (config self)) user))"
    using body_calls_enabled [OF en rooms search] by simp
  show ?thesis
    unfolding body
    by (simp add: create_notice_room_calls create_notice_room_result
        filter_users_in_room_calls notice_room_config_def notice_join_profile_def)
qed

theorem no_shared_room_creates_witness:
  "filter is_create_room_call (snd (get_notice_room_for_user_body example_manager ''u4'')) =
     [Call_create_room (Requester (Some ''@notices:hs''))
        \<lparr> preset = PRIVATE_CHAT, name = ''Server Notices'',
          power_level_content_override = [(''users_default'', - 10)],
          invite = [''u4''] \<rparr>
        False \<lparr> displayname = ''Notices'' \<rparr>]
   \<and> fst (get_notice_room_for_user_body example_manager ''u4'') = Inr ''r1''"
proof -
  have en: "is_enabled example_manager"
    by (simp add: is_enabled_def example_defs)
  have rooms: "get_rooms_for_user_where_membership_is (store example_manager) ''u4''
      [INVITE, JOIN] = Inr [\<lparr> room_id = ''r4'', membership = JOIN \<rparr>]"
    by (simp add: example_defs)
  have none: "\<forall>room \<in> set [\<lparr> room_id = ''r4'', membership = JOIN \<rparr>].
      \<exists>us. get_users_in_room (store example_manager) (room_id room) = Inr us
         \<and> server_notices_mxid (config example_manager) \<notin> set (map Some us)"
    by (simp add: example_defs)
  show ?thesis
    using no_shared_room_creates [OF en rooms none]
    by (simp add: example_defs create_requester_def)
qed

text \<open>
  Claim C4. When no notices account is configured, \<open>is_enabled\<close> is false, and for
  every user both \<open>get_notice_room_for_user\<close> and \<open>send_notice\<close> fail with the
  not-enabled exception with an empty call log: no datastore, room creation or event
  creation call is issued before the failure. The cache is any cache such a manager can
  hold; it stays as it is.
\<close>

theorem disabled_fails_fast:
  assumes none: "server_notices_mxid (config self) = None"
    and reach: "reachable (config self) cache"
  shows "\<not> is_enabled self
       \<and> get_notice_room_for_user_body self user = (Inl NotEnabledError, [])
       \<and> get_notice_room_for_user self cache user = ((Inl NotEnabledError, []), cache)
       \<and> send_notice self cache user content = ((Inl NotEnabledError, []), cache)"
proof -
  from none have dis: "\<not> is_enabled self"
    by (simp add: is_enabled_def)
  from reach none have empty: "cache = Map.empty"
    by (rule reachable_disabled)
  have body: "get_notice_room_for_user_body self user = (Inl NotEnabledError, [])"
    using dis by (rule body_disabled)
  have res: "get_notice_room_for_user self cache user = ((Inl NotEnabledError, []), cache)"
    by (simp add: get_notice_room_for_user_def cachedInlineCallbacks_def body empty)
  have send: "send_notice self cache user content = ((Inl NotEnabledError, []), cache)"
    by (simp add: send_notice_def res)
  from dis body res send show ?thesis by simp
qed

theorem disabled_fails_fast_witness:
  "\<not> is_enabled disabled_manager
   \<and> get_notice_room_for_user_body disabled_manager ''u1'' = (Inl NotEnabledError, [])
   \<and> get_notice_room_for_user disabled_manager Map.empty ''u1'' =
       ((Inl NotEnabledError, []), Map.empty)
   \<and> send_notice disabled_manager Map.empty ''u1'' (JObject [(''body'', JString ''hello'')]) =
       ((Inl NotEnabledError, []), Map.empty)"
proof -
  have none: "server_notices_mxid (config disabled_manager) = None"
    by (simp add: example_defs)
  have reach: "reachable (config disabled_manager) Map.empty"
    by (rule reachable_init)
  show ?thesis
    using none reach by (rule disabled_fails_fast)
qed

text \<open>
  Claim C5. For every user and content, when the resolver returns a room,
  \<open>send_notice\<close> issues the resolver's calls first and then exactly one
  \<open>create_and_send_nonmember_event\<close> call, whose event has the message type, the resolved
  room id, the configured notices account as sender and the caller's content, with
  \<open>ratelimit = False\<close>; the outcome of \<open>send_notice\<close> is the outcome of that call.
\<close>

theorem send_notice_event:
  assumes res: "get_notice_room_for_user self cache user = ((Inr room, calls), cache')"
    and reach: "reachable (config self) cache"
  shows "\<exists>system_mxid.
           server_notices_mxid (config self) = Some system_mxid
         \<and> send_notice self cache user content =
             ((create_and_send_nonmember_event (event_creation_handler self)
                 (create_requester (Some system_mxid))
                 \<lparr> event_type = Message, event_room_id = room,
                   event_sender = Some system_mxid, event_content = content \<rparr>
                 False,
               calls @
               [Call_create_and_send_nonmember_event (create_requester (Some system_mxid))
                  \<lparr> event_type = Message, event_room_id = room,
                    event_sender = Some system_mxid, event_content = content \<rparr>
                  False]),
              cache')
         \<and> filter is_event_call (snd (fst (send_notice self cache user content))) =
             [Call_create_and_send_nonmember_event (create_requester (Some system_mxid))
                \<lparr> event_type = Message, event_room_id = room,
                  event_sender = Some system_mxid, event_content = content \<rparr>
                False]"
proof -
  have "server_notices_mxid (config self) \<noteq> None"
  proof
    assume none: "server_notices_mxid (config self) = None"
    with reach have "cache = Map.empty" by (rule reachable_disabled)
    moreover from none have "\<not> is_enabled self" by (simp add: is_enabled_def)
    ultimately show False
      using res
      by (simp add: get_notice_room_for_user_def cachedInlineCallbacks_def body_disabled)
  qed
  then obtain m where m: "server_notices_mxid (config self) = Some m"
    by auto
  have noev: "filter is_event_call calls = []"
    using get_notice_room_for_user_no_event_call [of self cache user] res by simp
  have "send_notice self cache user content =
             ((create_and_send_nonmember_event (event_creation_handler self)
                 (create_requester (Some m))
                 \<lparr> event_type = Message, event_room_id = room,
                   event_sender = Some m, event_content = content \<rparr>
                 False,
               calls @
               [Call_create_and_send_nonmember_event (create_requester (Some m))
                  \<lparr> event_type = Message, event_room_id = room,
                    event_sender = Some m, event_content = content \<rparr>
                  False]),
              cache')"
    by (simp add: send_notice_def res m notice_event_def Let_def)
  with m noev show ?thesis by simp
qed

theorem send_notice_event_witness:
  "send_notice example_manager Map.empty ''u1'' (JObject [(''body'', JString ''hello'')]) =
     ((Inr (),
       [Call_get_rooms_for_user_where_membership_is ''u1'' [INVITE, JOIN],
        Call_create_room (Requester (Some ''@notices:hs''))
          \<lparr> preset = PRIVATE_CHAT, name = ''Server Notices'',
            power_level_content_override = [(''users_default'', - 10)],
            invite = [''u1''] \<rparr>
          False \<lparr> displayname = ''Notices'' \<rparr>,
        Call_create_and_send_nonmember_event (Requester (Some ''@notices:hs''))
          \<lparr> event_type = Message, event_room_id = ''r1'',
            event_sender = Some ''@notices:hs'',
            event_content = JObject [(''body'', JString ''hello'')] \<rparr>
          False]),
      [''u1'' \<mapsto> ''r1''])
   \<and> filter is_event_call
       (snd (fst (send_notice example_manager Map.empty ''u1''
          (JObject [(''body'', JString ''hello'')])))) =
     [Call_create_and_send_nonmember_event (Requester (Some ''@notices:hs''))
        \<lparr> event_type = Message, event_room_id = ''r1'',
          event_sender = Some ''@notices:hs'',
          event_content = JObject [(''body'', JString ''hello'')] \<rparr>
        False]"
proof -
  have res: "get_notice_room_for_user example_manager Map.empty ''u1'' =
     ((Inr ''r1'',
       [Call_get_rooms_for_user_where_membership_is ''u1'' [INVITE, JOIN],
        Call_create_room (Requester (Some ''@notices:hs''))
          \<lparr> preset = PRIVATE_CHAT, name = ''Server Notices'',
            power_level_content_override = [(''users_default'', - 10)],
            invite = [''u1''] \<rparr>
          False \<lparr> displayname = ''Notices'' \<rparr>]),
      [''u1'' \<mapsto> ''r1''])"
    by (simp add: method_defs example_defs)
  have reach: "reachable (config example_manager) Map.empty"
    by (rule reachable_init)
  show ?thesis
    using send_notice_event [OF res reach, of "JObject [(''body'', JString ''hello'')]"]
    by (simp add: example_defs create_requester_def)
qed

text \<open>
  Claim C6. In the call log of one resolution, a \<open>create_room\<close> call is the last
  entry and comes after the membership query and after the member query of every room
  of the membership list, in order; each of these queries succeeded and none of the rooms
  contains the notices account.
\<close>

theorem creation_after_search:
  assumes "Call_create_room req rc rl prof \<in> set (snd (get_notice_room_for_user_body self user))"
  shows "\<exists>rooms.
           get_rooms_for_user_where_membership_is (store self) user [INVITE, JOIN] = Inr rooms
         \<and> (\<forall>room \<in> set rooms. \<exists>us.
               get_users_in_room (store self) (room_id room) = Inr us
             \<and> server_notices_mxid (config self) \<notin> set (map Some us))
         \<and> snd (get_notice_room_for_user_body self user) =
             Call_get_rooms_for_user_where_membership_is user [INVITE, JOIN] #
             map (\<lambda>room. Call_get_users_in_room (room_id room)) rooms @
             [Call_create_room req rc rl prof]"
proof -
  from body_create_room_call [OF assms] obtain rooms where
    "get_rooms_for_user_where_membership_is (store self) user [INVITE, JOIN] = Inr rooms"
    "find_shared_room self (server_notices_mxid (config self)) rooms =
       (Inr None, map (\<lambda>room. Call_get_users_in_room (room_id room)) rooms)"
    "snd (get_notice_room_for_user_body self user) =
       Call_get_rooms_for_user_where_membership_is user [INVITE, JOIN] #
       map (\<lambda>room. Call_get_users_in_room (room_id room)) rooms @
       [Call_create_room req rc rl prof]"
    by blast
  then show ?thesis
    by (auto simp: find_shared_room_none_iff)
qed

theorem creation_after_search_witness:
  "Call_create_room (Requester (Some ''@notices:hs''))
     \<lparr> preset = PRIVATE_CHAT, name = ''Server Notices'',
       power_level_content_override = [(''users_default'', - 10)],
       invite = [''u4''] \<rparr>
     False \<lparr> displayname = ''Notices'' \<rparr>
     \<in> set (snd (get_notice_room_for_user_body example_manager ''u4''))
   \<and> (\<exists>rooms.
         get_rooms_for_user_where_membership_is (store example_manager) ''u4'' [INVITE, JOIN]
           = Inr rooms
       \<and> snd (get_notice_room_for_user_body example_manager ''u4'') =
           Call_get_rooms_for_user_where_membership_is ''u4'' [INVITE, JOIN] #
           map (\<lambda>room. Call_get_users_in_room (room_id room)) rooms @
           [Call_create_room (Requester (Some ''@notices:hs''))
              \<lparr> preset = PRIVATE_CHAT, name = ''Server Notices'',
                power_level_content_override = [(''users_default'', - 10)],
                invite = [''u4''] \<rparr>
              False \<lparr> displayname = ''Notices'' \<rparr>])"
proof -
  have created: "Call_create_room (Requester (Some ''@notices:hs''))
     \<lparr> preset = PRIVATE_CHAT, name = ''Server Notices'',
       power_level_content_override = [(''users_default'', - 10)],
       invite = [''u4''] \<rparr>
     False \<lparr> displayname = ''Notices'' \<rparr>
     \<in> set (snd (get_notice_room_for_user_body example_manager ''u4''))"
    by (simp add: method_defs example_defs)
  from creation_after_search [OF created] created show ?thesis
    by blast
qed

text \<open>
  Claim C8. When \<open>get_notice_room_for_user\<close> fails, the failure is the one the
  resolution raised (the not-enabled exception, the failure of a datastore query or of
  \<open>create_room\<close>, or the \<open>KeyError\<close> of a creation result without \<open>room_id\<close>), the cache
  is unchanged and holds no entry for the user, and the next call for the same user runs
  the whole resolution again against the collaborators' answers of that time.
\<close>

theorem failed_resolution_not_cached:
  assumes "get_notice_room_for_user self cache user = ((Inl e, calls), cache')"
  shows "cache' = cache \<and> cache' user = None
       \<and> get_notice_room_for_user_body self user = (Inl e, calls)
       \<and> fst (get_notice_room_for_user self' cache' user) =
           get_notice_room_for_user_body self' user
       \<and> (e = NotEnabledError
          \<or> get_rooms_for_user_where_membership_is (store self) user [INVITE, JOIN] = Inl e
          \<or> (\<exists>rooms room.
               get_rooms_for_user_where_membership_is (store self) user [INVITE, JOIN]
                 = Inr rooms
             \<and> room \<in> set rooms
             \<and> get_users_in_room (store self) (room_id room) = Inl e)
          \<or> create_room (room_creation_handler self)
               (create_requester (server_notices_mxid (config self)))
               (notice_room_config self user) False (notice_join_profile self) = Inl e
          \<or> e = KeyError ''room_id'')"
proof -
  from get_notice_room_for_user_failure [OF assms]
  have miss: "cache user = None" and same: "cache' = cache"
    and body: "get_notice_room_for_user_body self user = (Inl e, calls)"
    by simp_all
  from miss same have "fst (get_notice_room_for_user self' cache' user) =
      get_notice_room_for_user_body self' user"
    by (simp add: get_notice_room_for_user_miss)
  with miss same body body_failure_origin [OF body] show ?thesis
    by simp
qed

theorem failed_resolution_not_cached_witness:
  "get_notice_room_for_user example_manager Map.empty ''u3'' =
     ((Inl (CollaboratorError ''db''),
       [Call_get_rooms_for_user_where_membership_is ''u3'' [INVITE, JOIN]]),
      Map.empty)
   \<and> get_notice_room_for_user_body example_manager ''u3'' =
     (Inl (CollaboratorError ''db''),
      [Call_get_rooms_for_user_where_membership_is ''u3'' [INVITE, JOIN]])
   \<and> fst (get_notice_room_for_user example_manager Map.empty ''u3'') =
     get_notice_room_for_user_body example_manager ''u3''"
proof -
  have failed: "get_notice_room_for_user example_manager Map.empty ''u3'' =
     ((Inl (CollaboratorError ''db''),
       [Call_get_rooms_for_user_where_membership_is ''u3'' [INVITE, JOIN]]),
      Map.empty)"
    by (simp add: method_defs example_defs)
  note r = failed_resolution_not_cached [OF failed, of example_manager]
  from r have body: "get_notice_room_for_user_body example_manager ''u3'' =
     (Inl (CollaboratorError ''db''),
      [Call_get_rooms_for_user_where_membership_is ''u3'' [INVITE, JOIN]])"
    by (elim conjE)
  from r have retry: "fst (get_notice_room_for_user example_manager Map.empty ''u3'') =
     get_notice_room_for_user_body example_manager ''u3''"
    by (elim conjE)
  from failed body retry show ?thesis
    by (intro conjI)
qed

text \<open>
  Claim C9. Every \<open>create_room\<close> call a resolution issues has
  \<open>ratelimit = False\<close>.
\<close>

theorem create_room_not_ratelimited:
  assumes "Call_create_room req rc rl prof \<in> set (snd (get_notice_room_for_user_body self user))"
  shows "rl = False"
  using body_create_room_call [OF assms] by auto

theorem create_room_not_ratelimited_witness:
  "\<exists>req rc rl prof.
     Call_create_room req rc rl prof
       \<in> set (snd (get_notice_room_for_user_body example_manager ''u1''))
   \<and> rl = False"
proof -
  have created: "Call_create_room (Requester (Some ''@notices:hs''))
     \<lparr> preset = PRIVATE_CHAT, name = ''Server Notices'',
       power_level_content_override = [(''users_default'', - 10)],
       invite = [''u1''] \<rparr>
     False \<lparr> displayname = ''Notices'' \<rparr>
     \<in> set (snd (get_notice_room_for_user_body example_manager ''u1''))"
    by (simp add: method_defs example_defs)
  from created create_room_not_ratelimited [OF created] show ?thesis
    by blast
qed

text \<open>
  Claim C10. A call of \<open>get_notice_room_for_user\<close> for a user leaves the cache entry
  of every other user as it was: it neither creates, changes nor removes it.
\<close>

theorem resolve_frame:
  assumes "v \<noteq> user"
  shows "snd (get_notice_room_for_user self cache user) v = cache v"
  using assms by (rule get_notice_room_for_user_frame)

theorem resolve_frame_witness:
  "''u2'' \<noteq> ''u1''
   \<and> snd (get_notice_room_for_user example_manager [''u2'' \<mapsto> ''r2''] ''u1'') ''u2''
       = Some ''r2''"
proof -
  have neq: "''u2'' \<noteq> ''u1''" by simp
  from neq resolve_frame [OF neq, of example_manager "[''u2'' \<mapsto> ''r2'']"] show ?thesis
    by simp
qed

end
